theory Spec2Isabelle
  imports Complex_Main
begin

section \<open>Numbers of the program\<close>

text \<open>
  The script computes with Python numbers: the integer literals \<^verbatim>\<open>10\<close>, \<^verbatim>\<open>28\<close>,
  \<^verbatim>\<open>15\<close> and floats. A float is either an ordinary number or one of the special
  values \<^verbatim>\<open>inf\<close>, \<^verbatim>\<open>-inf\<close>, \<^verbatim>\<open>nan\<close>. An ordinary number is modelled by the real it
  stands for. A sum or product of two ordinary numbers overflows to an infinity as a
  double does: exactly when the magnitude of the exact result reaches
  \<open>2 ^ 1024 - 2 ^ 970\<close>, the point from which rounding to nearest leaves the finite
  doubles. Below that point the exact result is kept: rounding of the mantissa,
  underflow and the sign of zero are outside this model. The special values follow the
  IEEE rules that Python uses for \<^verbatim>\<open>+\<close>, \<^verbatim>\<open>-\<close> and \<^verbatim>\<open>*\<close>.
\<close>

datatype pyfloat = Num real | PosInf | NegInf | NaN

fun is_finite :: "pyfloat \<Rightarrow> bool" where
  "is_finite (Num r) = True"
| "is_finite PosInf = False"
| "is_finite NegInf = False"
| "is_finite NaN = False"

text \<open>The infinity that a product of an infinity with the finite factor \<open>r\<close> gives.\<close>

definition signed_inf :: "real \<Rightarrow> pyfloat" where
  "signed_inf r = (if r = 0 then NaN else if 0 < r then PosInf else NegInf)"

text \<open>The float that an operation on ordinary numbers with the exact result \<open>r\<close> gives.\<close>

definition overflow_threshold :: real where
  "overflow_threshold = 2 ^ 1024 - 2 ^ 970"

definition overflow :: "real \<Rightarrow> pyfloat" where
  "overflow r =
     (if overflow_threshold \<le> \<bar>r\<bar> then (if 0 < r then PosInf else NegInf) else Num r)"

instantiation pyfloat :: "{plus, uminus, minus, times}"
begin

fun plus_pyfloat :: "pyfloat \<Rightarrow> pyfloat \<Rightarrow> pyfloat" where
  "Num a + Num b = overflow (a + b)"
| "Num a + PosInf = PosInf"
| "Num a + NegInf = NegInf"
| "PosInf + Num b = PosInf"
| "PosInf + PosInf = PosInf"
| "PosInf + NegInf = NaN"
| "NegInf + Num b = NegInf"
| "NegInf + PosInf = NaN"
| "NegInf + NegInf = NegInf"
| "NaN + v = NaN"
| "Num a + NaN = NaN"
| "PosInf + NaN = NaN"
| "NegInf + NaN = NaN"

fun uminus_pyfloat :: "pyfloat \<Rightarrow> pyfloat" where
  "- Num a = Num (- a)"
| "- PosInf = NegInf"
| "- NegInf = PosInf"
| "- NaN = NaN"

definition minus_pyfloat :: "pyfloat \<Rightarrow> pyfloat \<Rightarrow> pyfloat" where
  "minus_pyfloat u v = u + (- v)"

fun times_pyfloat :: "pyfloat \<Rightarrow> pyfloat \<Rightarrow> pyfloat" where
  "Num a * Num b = overflow (a * b)"
| "Num a * PosInf = signed_inf a"
| "Num a * NegInf = signed_inf (- a)"
| "PosInf * Num b = signed_inf b"
| "PosInf * PosInf = PosInf"
| "PosInf * NegInf = NegInf"
| "NegInf * Num b = signed_inf (- b)"
| "NegInf * PosInf = NegInf"
| "NegInf * NegInf = PosInf"
| "NaN * v = NaN"
| "Num a * NaN = NaN"
| "PosInf * NaN = NaN"
| "NegInf * NaN = NaN"

instance ..

end

section \<open>Errors\<close>

text \<open>
  The Python exceptions that the modelled code can raise. \<open>LibraryError\<close> stands for any
  other exception raised inside numpy or the ODE solver.
\<close>

datatype error = ValueError | ZeroDivisionError | AttributeError | LibraryError

section \<open>The dynamics function\<close>

text \<open>
  \<^verbatim>\<open>def lorenz_system(t, state, sigma=10, rho=28, beta=8 / 3)\<close>. An omitted keyword
  argument is \<open>None\<close> here and takes the default of the signature. The unpacking
  \<^verbatim>\<open>x, y, z = state\<close> raises \<^verbatim>\<open>ValueError\<close> unless the state has exactly three
  components.
\<close>

definition lorenz_system ::
  "pyfloat \<Rightarrow> pyfloat list \<Rightarrow> pyfloat option \<Rightarrow> pyfloat option \<Rightarrow> pyfloat option
    \<Rightarrow> error + pyfloat list" where
  "lorenz_system t state sigma_arg rho_arg beta_arg =
     (let sigma = (case sigma_arg of None \<Rightarrow> Num 10 | Some v \<Rightarrow> v);
          rho = (case rho_arg of None \<Rightarrow> Num 28 | Some v \<Rightarrow> v);
          beta = (case beta_arg of None \<Rightarrow> Num (8 / 3) | Some v \<Rightarrow> v)
      in (case state of
            [x, y, z] \<Rightarrow>
              (let dxdt = sigma * (y - x);
                   dydt = x * (rho - z) - y;
                   dzdt = x * y - beta * z
               in Inr [dxdt, dydt, dzdt])
          | _ \<Rightarrow> Inl ValueError))"

section \<open>The trajectory integrator\<close>

text \<open>
  \<^verbatim>\<open>solve_ivp\<close> belongs to scipy, not to the script, so the solver is a parameter of
  the model. It receives the dynamics function, the pair \<^verbatim>\<open>t_span\<close>, the initial state
  \<^verbatim>\<open>y0\<close> and the output times \<^verbatim>\<open>t_eval\<close>; it either raises or returns a result object.
  Of that object the model keeps the output times \<^verbatim>\<open>t\<close>, the value \<^verbatim>\<open>y\<close>, the integer
  \<^verbatim>\<open>status\<close> and the flag \<^verbatim>\<open>success\<close>. The script reads \<^verbatim>\<open>y\<close> only. When the solver
  reached an output time, \<^verbatim>\<open>y\<close> is a two-dimensional array: one row per state component
  (a state has at least one), one column per output time reached. When it reached
  none (its first step failed, or no output time was requested), \<^verbatim>\<open>y\<close> is left as the
  empty Python list; the empty list of rows stands for it.
\<close>

record ode_result =
  sol_t :: "pyfloat list"
  sol_y :: "pyfloat list list"
  sol_status :: int
  sol_success :: bool

type_synonym dynamics = "pyfloat \<Rightarrow> pyfloat list \<Rightarrow> error + pyfloat list"

type_synonym ivp_solver =
  "dynamics \<Rightarrow> pyfloat \<times> pyfloat \<Rightarrow> pyfloat list \<Rightarrow> pyfloat list \<Rightarrow> error + ode_result"

text \<open>
  Modelled from the spec: \<^verbatim>\<open>np.arange\<close> is numpy's and not part of the script. For the
  call \<^verbatim>\<open>np.arange(0, time, dt)\<close> the spec gives the output times
  \<^verbatim>\<open>0, dt, 2dt, ..., < T\<close>: the values \<open>start + k * step\<close> for
  \<open>k < \<lceil>(stop - start) / step\<rceil>\<close>. A zero step is a division by zero; a \<^verbatim>\<open>nan\<close>
  argument or an infinite bound leaves the length undefined (\<open>LibraryError\<close>); an
  infinite step gives the quotient zero and an empty result.
\<close>

definition arange :: "pyfloat \<Rightarrow> pyfloat \<Rightarrow> pyfloat \<Rightarrow> error + pyfloat list" where
  "arange start stop step =
     (case (start, stop, step) of
        (Num a, Num b, Num s) \<Rightarrow>
          if s = 0 then Inl ZeroDivisionError
          else Inr (map (\<lambda>k. Num (a + real k * s)) [0..<nat \<lceil>(b - a) / s\<rceil>])
      | (Num a, Num b, PosInf) \<Rightarrow> Inr []
      | (Num a, Num b, NegInf) \<Rightarrow> Inr []
      | _ \<Rightarrow> Inl LibraryError)"

text \<open>
  \<^verbatim>\<open>def ode_solution_points(function, state0, time, dt=0.01)\<close>. The arguments of the
  solver call are evaluated first, so an exception of \<^verbatim>\<open>np.arange\<close> comes before the
  solver runs. \<^verbatim>\<open>solution.y.T\<close> is the transposed array, one row per output time; a
  Python list has no attribute \<^verbatim>\<open>T\<close>, so on the empty list the access raises
  \<^verbatim>\<open>AttributeError\<close>.
\<close>

definition ode_solution_points ::
  "ivp_solver \<Rightarrow> dynamics \<Rightarrow> pyfloat list \<Rightarrow> pyfloat \<Rightarrow> pyfloat option
    \<Rightarrow> error + pyfloat list list" where
  "ode_solution_points solve_ivp function state0 time dt_arg =
     (let dt = (case dt_arg of None \<Rightarrow> Num (1 / 100) | Some v \<Rightarrow> v)
      in (case arange (Num 0) time dt of
            Inl e \<Rightarrow> Inl e
          | Inr t_eval \<Rightarrow>
              (case solve_ivp function (Num 0, time) state0 t_eval of
                 Inl e \<Rightarrow> Inl e
               | Inr solution \<Rightarrow>
                   if sol_y solution = [] then Inl AttributeError
                   else Inr (transpose (sol_y solution)))))"

text \<open>
  What the spec asks of the solver on a call that returns: the result carries the
  requested output times and one state of dimension \<open>n\<close> per output time.
\<close>

definition samples_on_grid :: "nat \<Rightarrow> pyfloat list \<Rightarrow> ode_result \<Rightarrow> bool" where
  "samples_on_grid n t_eval solution =
     (sol_t solution = t_eval \<and> length (sol_y solution) = n
      \<and> list_all (\<lambda>row. length row = length t_eval) (sol_y solution))"

text \<open>The state that the solver reports at the \<open>k\<close>-th output time: a column of \<^verbatim>\<open>y\<close>.\<close>

definition state_at :: "ode_result \<Rightarrow> nat \<Rightarrow> pyfloat list" where
  "state_at solution k = map (\<lambda>row. row ! k) (sol_y solution)"

text \<open>
  The initial-value condition of a solver: at every output time equal to the start
  \<open>t0\<close> of the integration, the reported state is the initial state \<open>y0\<close>.
\<close>

definition reports_initial_state :: "pyfloat \<Rightarrow> pyfloat list \<Rightarrow> ode_result \<Rightarrow> bool" where
  "reports_initial_state t0 y0 solution =
     list_all (\<lambda>k. sol_t solution ! k = t0 \<longrightarrow> state_at solution k = y0)
       [0..<length (sol_t solution)]"

section \<open>The ensemble of the scene\<close>

text \<open>
  The numerical part of \<^verbatim>\<open>LorenzAttractor.construct\<close>: the constants, the list of
  initial states and the loop that integrates one trajectory per state. Text, axes,
  camera and playback belong to the animation library and are left out; of a curve the
  model keeps its points and its colour. \<^verbatim>\<open>color_gradient\<close> is the library's, so the
  list of colours it returns for a requested length is a parameter.
\<close>

definition epsilon :: pyfloat where
  "epsilon = Num (1 / 100000)"

definition evolution_time :: pyfloat where
  "evolution_time = Num 15"

definition n_points :: nat where
  "n_points = 5"

definition states :: "pyfloat list list" where
  "states = map (\<lambda>n. [Num 10, Num 10, Num 10 + Num (real n) * epsilon]) [0..<n_points]"

text \<open>
  The loop \<^verbatim>\<open>for state, color in zip(states, colors)\<close>: the accumulator is the group
  \<^verbatim>\<open>curves\<close>; an exception of the integrator ends the loop and the scene.
\<close>

fun curves_loop ::
  "ivp_solver \<Rightarrow> (pyfloat list list \<times> 'c) list \<Rightarrow> (pyfloat list \<times> 'c) list
    \<Rightarrow> error + (pyfloat list list \<times> 'c) list" where
  "curves_loop solve_ivp curves [] = Inr curves"
| "curves_loop solve_ivp curves ((state, color) # rest) =
     (case ode_solution_points solve_ivp (\<lambda>t s. lorenz_system t s None None None)
             state evolution_time None of
        Inl e \<Rightarrow> Inl e
      | Inr points \<Rightarrow> curves_loop solve_ivp (curves @ [(points, color)]) rest)"

definition construct_curves ::
  "ivp_solver \<Rightarrow> (nat \<Rightarrow> 'c list) \<Rightarrow> error + (pyfloat list list \<times> 'c) list" where
  "construct_curves solve_ivp color_gradient =
     (let colors = color_gradient (length states)
      in curves_loop solve_ivp [] (zip states colors))"

section \<open>Solvers to instantiate the parameter\<close>

text \<open>
  Two concrete behaviours of the solver parameter, used to evaluate the integrator on
  concrete inputs. \<open>steady_solver\<close> succeeds and reports the initial state at every output
  time. \<open>failing_solver\<close> behaves as a solver whose first step succeeds and reaches the
  first output time only, and whose second step fails: it returns normally, with status
  \<open>-1\<close>, \<^verbatim>\<open>success = False\<close> and the sample of the first output time. With no output
  time requested, both leave \<^verbatim>\<open>y\<close> as the empty list.
\<close>

definition steady_solver :: ivp_solver where
  "steady_solver function t_span y0 t_eval =
     Inr \<lparr>sol_t = t_eval,
          sol_y = (if t_eval = [] then [] else map (\<lambda>v. map (\<lambda>t. v) t_eval) y0),
          sol_status = 0, sol_success = True\<rparr>"

definition failing_solver :: ivp_solver where
  "failing_solver function t_span y0 t_eval =
     Inr \<lparr>sol_t = take 1 t_eval,
          sol_y = (if t_eval = [] then [] else map (\<lambda>v. map (\<lambda>t. v) (take 1 t_eval)) y0),
          sol_status = - 1, sol_success = False\<rparr>"

section \<open>Properties of the dynamics function\<close>

lemma lorenz_system_triple:
  "lorenz_system t [x, y, z] sigma_arg rho_arg beta_arg =
     Inr [(case sigma_arg of None \<Rightarrow> Num 10 | Some v \<Rightarrow> v) * (y - x),
          x * ((case rho_arg of None \<Rightarrow> Num 28 | Some v \<Rightarrow> v) - z) - y,
          x * y - (case beta_arg of None \<Rightarrow> Num (8 / 3) | Some v \<Rightarrow> v) * z]"
  by (simp add: lorenz_system_def)

text \<open>
  Claim C1. For every state vector \<open>(x, y, z)\<close> and parameters \<open>(sigma, rho, beta)\<close> the
  dynamics function returns the derivative vector
  \<open>(sigma * (y - x), x * (rho - z) - y, x * y - beta * z)\<close>, and with the parameters
  omitted it computes the same vector for \<open>sigma = 10\<close>, \<open>rho = 28\<close>, \<open>beta = 8/3\<close>.
\<close>

theorem lorenz_system_derivative:
  "lorenz_system t [x, y, z] (Some sigma) (Some rho) (Some beta) =
     Inr [sigma * (y - x), x * (rho - z) - y, x * y - beta * z]
   \<and> lorenz_system t [x, y, z] None None None =
     Inr [Num 10 * (y - x), x * (Num 28 - z) - y, x * y - Num (8 / 3) * z]
   \<and> lorenz_system t [x, y, z] None None None =
     lorenz_system t [x, y, z] (Some (Num 10)) (Some (Num 28)) (Some (Num (8 / 3)))"
  by (simp add: lorenz_system_triple)

text \<open>
  Claim C10. The dynamics function ignores its time argument: at any two times it
  returns the same result for the same state and parameters.
\<close>

theorem lorenz_system_autonomous:
  "lorenz_system t1 state sigma_arg rho_arg beta_arg =
   lorenz_system t2 state sigma_arg rho_arg beta_arg"
  by (simp add: lorenz_system_def)

subsection \<open>Totality and finiteness\<close>

lemma overflow_below: "\<bar>r\<bar> < overflow_threshold \<Longrightarrow> overflow r = Num r"
  by (simp add: overflow_def)

lemma threshold_large: "10 ^ 307 < overflow_threshold"
  by (simp add: overflow_threshold_def)


lemma Num_times_Num: "\<bar>a * b\<bar> < overflow_threshold \<Longrightarrow> Num a * Num b = Num (a * b)"
  by (simp add: overflow_below)

lemma length_3_iff: "(length state = 3) = (\<exists>x y z. state = [x, y, z])"
  by (auto simp: length_Suc_conv numeral_3_eq_3)

lemma lorenz_system_bad_state:
  "length state \<noteq> 3 \<Longrightarrow> lorenz_system t state sigma_arg rho_arg beta_arg = Inl ValueError"
  by (simp add: lorenz_system_def Let_def length_3_iff split: list.split)








subsection \<open>No validation of the parameters\<close>

text \<open>
  Claim C8, as stated: invalid parameter input, such as a non-finite \<open>sigma\<close>, is
  rejected with an explicit failure. The code does not do so: with \<open>sigma = nan\<close> the
  dynamics function returns normally, and the first derivative is \<^verbatim>\<open>nan\<close>.
\<close>

theorem lorenz_system_accepts_nan:
  "\<not> is_finite NaN \<and>
   lorenz_system (Num 0) [Num 1, Num 1, Num 1] (Some NaN) (Some (Num 28)) (Some (Num (8 / 3)))
     = Inr [NaN, Num 26, Num (- 5 / 3)]"
  by (simp add: lorenz_system_triple minus_pyfloat_def overflow_def overflow_threshold_def)

text \<open>
  Claim C8, amended. The dynamics function validates no parameter: whatever \<open>sigma\<close>,
  \<open>rho\<close> and \<open>beta\<close> are, finite or not, it fails exactly when the state does not have
  three components, and then with \<^verbatim>\<open>ValueError\<close>.
\<close>

theorem lorenz_system_rejects_only_state:
  "(lorenz_system t state sigma_arg rho_arg beta_arg = Inl e)
     = (length state \<noteq> 3 \<and> e = ValueError)"
proof (cases "length state = 3")
  case True
  then obtain x y z where "state = [x, y, z]" by (auto simp: length_3_iff)
  then show ?thesis by (simp add: lorenz_system_triple)
next
  case False
  then show ?thesis by (auto simp: lorenz_system_bad_state)
qed

section \<open>Properties of the trajectory integrator\<close>

subsection \<open>The sampling grid\<close>

lemma arange_finite:
  "s \<noteq> 0 \<Longrightarrow> arange (Num a) (Num b) (Num s)
     = Inr (map (\<lambda>k. Num (a + real k * s)) [0..<nat \<lceil>(b - a) / s\<rceil>])"
  by (simp add: arange_def)

lemma below_ceiling_iff:
  fixes T dt :: real
  assumes "0 < dt"
  shows "(k < nat \<lceil>T / dt\<rceil>) = (real k * dt < T)"
proof -
  have "(k < nat \<lceil>T / dt\<rceil>) = (int k < \<lceil>T / dt\<rceil>)" by linarith
  also have "\<dots> = (of_int (int k) < T / dt)" by (rule less_ceiling_iff)
  also have "\<dots> = (real k * dt < T)" using assms by (simp add: pos_less_divide_eq)
  finally show ?thesis .
qed

lemma length_transpose_rect:
  assumes "m \<noteq> []" "list_all (\<lambda>row. length row = n) m"
  shows "length (transpose m) = n"
  using assms
proof (induction m)
  case Nil then show ?case by simp
next
  case (Cons r m)
  show ?case
  proof (cases "m = []")
    case True
    with Cons.prems show ?thesis by (simp add: length_transpose)
  next
    case False
    with Cons show ?thesis by (simp add: length_transpose)
  qed
qed

lemma nth_transpose_rect:
  assumes "m \<noteq> []" "list_all (\<lambda>row. length row = n) m" "k < n"
  shows "transpose m ! k = map (\<lambda>row. row ! k) m"
proof -
  have len: "k < length (transpose m)" using assms by (simp add: length_transpose_rect)
  have "filter (\<lambda>ys. k < length ys) m = m"
    using assms by (auto simp: list_all_iff filter_id_conv)
  with nth_transpose[OF len] show ?thesis by simp
qed


lemma ode_solution_points_returned:
  assumes "arange (Num 0) time (case dt_arg of None \<Rightarrow> Num (1 / 100) | Some v \<Rightarrow> v) = Inr t_eval"
      and "solve_ivp function (Num 0, time) state0 t_eval = Inr solution"
      and "sol_y solution \<noteq> []"
  shows "ode_solution_points solve_ivp function state0 time dt_arg
           = Inr (transpose (sol_y solution))"
  using assms by (simp add: ode_solution_points_def)

text \<open>
  Claim C2. For a positive sampling step \<open>dt\<close> (passed, or the default \<open>0.01\<close>) and a
  total time \<open>T\<close>, the integrator asks the solver for exactly the times
  \<open>0, dt, 2dt, ...\<close> strictly below \<open>T\<close>; when the solver returns one state per
  requested time, the integrator returns these states, one per time and in order. For
  \<open>T = 15\<close> and \<open>dt = 0.01\<close> there are exactly 1500 of them.
\<close>

theorem ode_solution_points_sampling:
  assumes "0 < dt"
      and "dt_arg = None \<and> dt = 1 / 100 \<or> dt_arg = Some (Num dt)"
  shows "\<exists>t_eval.
           arange (Num 0) (Num T) (Num dt) = Inr t_eval
         \<and> t_eval = map (\<lambda>k. Num (real k * dt)) [0..<length t_eval]
         \<and> (\<forall>k. (k < length t_eval) = (real k * dt < T))
         \<and> (T = 15 \<and> dt = 1 / 100 \<longrightarrow> length t_eval = 1500)
         \<and> (\<forall>solution.
               solve_ivp function (Num 0, Num T) state0 t_eval = Inr solution
               \<and> samples_on_grid (length state0) t_eval solution \<and> state0 \<noteq> [] \<longrightarrow>
               (\<exists>points.
                  ode_solution_points solve_ivp function state0 (Num T) dt_arg = Inr points
                \<and> length points = length t_eval
                \<and> (\<forall>k < length t_eval. points ! k = state_at solution k)))"
proof -
  define n where "n = nat \<lceil>T / dt\<rceil>"
  define t_eval where "t_eval = map (\<lambda>k. Num (real k * dt)) [0..<n]"
  have len: "length t_eval = n" by (simp add: t_eval_def)
  have grid: "arange (Num 0) (Num T) (Num dt) = Inr t_eval"
    using assms(1) by (simp add: arange_finite t_eval_def n_def)
  have dt_eq: "(case dt_arg of None \<Rightarrow> Num (1 / 100) | Some v \<Rightarrow> v) = Num dt"
    using assms(2) by (elim disjE conjE) simp_all
  have shape: "t_eval = map (\<lambda>k. Num (real k * dt)) [0..<length t_eval]"
    unfolding len by (simp add: t_eval_def)
  have below: "\<forall>k. (k < length t_eval) = (real k * dt < T)"
    unfolding len n_def using below_ceiling_iff [OF assms(1)] by blast
  have count: "T = 15 \<and> dt = 1 / 100 \<longrightarrow> length t_eval = 1500"
  proof (intro impI, elim conjE)
    assume T: "T = 15" and dt: "dt = 1 / 100"
    have "T / dt = 1500" unfolding T dt by simp
    then show "length t_eval = 1500" unfolding len n_def by simp
  qed
  have out: "\<exists>points.
        ode_solution_points solve_ivp function state0 (Num T) dt_arg = Inr points
      \<and> length points = length t_eval
      \<and> (\<forall>k < length t_eval. points ! k = state_at solution k)"
    if sol: "solve_ivp function (Num 0, Num T) state0 t_eval = Inr solution"
      and sh: "samples_on_grid (length state0) t_eval solution" and ne: "state0 \<noteq> []"
    for solution
  proof -
    have m_ne: "sol_y solution \<noteq> []"
      using sh ne by (auto simp: samples_on_grid_def)
    have rect: "list_all (\<lambda>row. length row = length t_eval) (sol_y solution)"
      using sh by (simp add: samples_on_grid_def)
    have res: "ode_solution_points solve_ivp function state0 (Num T) dt_arg
        = Inr (transpose (sol_y solution))"
      using grid sol m_ne by (intro ode_solution_points_returned) (simp_all add: dt_eq)
    have l: "length (transpose (sol_y solution)) = length t_eval"
      using m_ne rect by (rule length_transpose_rect)
    have nth: "\<forall>k < length t_eval. transpose (sol_y solution) ! k = state_at solution k"
      using nth_transpose_rect [OF m_ne rect] by (simp add: state_at_def)
    show ?thesis using res l nth by blast
  qed
  show ?thesis
    using grid shape below count out by blast
qed

lemma steady_solver_samples:
  "samples_on_grid (length y0) t_eval
     \<lparr>sol_t = t_eval, sol_y = map (\<lambda>v. map (\<lambda>t. v) t_eval) y0,
      sol_status = 0, sol_success = True\<rparr>"
  by (simp add: samples_on_grid_def list_all_iff)

theorem ode_solution_points_sampling_witness:
  "\<exists>points.
     ode_solution_points steady_solver (\<lambda>t s. lorenz_system t s None None None)
       [Num 10, Num 10, Num 10] (Num 15) None = Inr points
   \<and> length points = 1500"
proof -
  let ?f = "\<lambda>t s. lorenz_system t s None None None"
  let ?s0 = "[Num 10, Num 10, Num 10]"
  have pos: "(0::real) < 1 / 100" by simp
  have arg: "(None::pyfloat option) = None \<and> (1 / 100 :: real) = 1 / 100
      \<or> None = Some (Num (1 / 100))" by simp
  from ode_solution_points_sampling [OF pos arg, of 15 steady_solver ?f ?s0]
  obtain t_eval where
    cnt0: "(15::real) = 15 \<and> (1 / 100 :: real) = 1 / 100 \<longrightarrow> length t_eval = 1500" and
    all: "\<forall>solution.
            steady_solver ?f (Num 0, Num 15) ?s0 t_eval = Inr solution
            \<and> samples_on_grid (length ?s0) t_eval solution \<and> ?s0 \<noteq> [] \<longrightarrow>
            (\<exists>points. ode_solution_points steady_solver ?f ?s0 (Num 15) None = Inr points
               \<and> length points = length t_eval
               \<and> (\<forall>k < length t_eval. points ! k = state_at solution k))"
    by blast
  have cnt: "length t_eval = 1500" using cnt0 by simp
  let ?r = "\<lparr>sol_t = t_eval, sol_y = map (\<lambda>v. map (\<lambda>t. v) t_eval) ?s0,
      sol_status = 0, sol_success = True\<rparr>"
  have "t_eval \<noteq> []" using cnt by auto
  then have "steady_solver ?f (Num 0, Num 15) ?s0 t_eval = Inr ?r"
    by (simp add: steady_solver_def)
  moreover have "samples_on_grid (length ?s0) t_eval ?r"
    by (rule steady_solver_samples)
  moreover have "?s0 \<noteq> []" by simp
  ultimately obtain points where
    "ode_solution_points steady_solver ?f ?s0 (Num 15) None = Inr points"
    "length points = length t_eval"
    using all by blast
  with cnt show ?thesis by simp
qed

subsection \<open>Failure of the solver\<close>

text \<open>
  Claim C4, as stated: a failure of the solver is surfaced as an explicit failure and
  no partial data is returned. The code does not do so: for a solver whose integration
  fails after the first of the two requested output times, and which reports the
  failure in its result (status \<open>-1\<close>, \<^verbatim>\<open>success = False\<close>), the integrator returns
  normally, with the single point the solver produced.
\<close>

theorem ode_solution_points_silent_failure:
  "ode_solution_points failing_solver (\<lambda>t s. lorenz_system t s None None None)
     [Num 10, Num 10, Num 10] (Num 1) (Some (Num (1 / 2)))
     = Inr [[Num 10, Num 10, Num 10]]
   \<and> arange (Num 0) (Num 1) (Num (1 / 2)) = Inr [Num 0, Num (1 / 2)]
   \<and> failing_solver (\<lambda>t s. lorenz_system t s None None None) (Num 0, Num 1)
        [Num 10, Num 10, Num 10] [Num 0, Num (1 / 2)]
      = Inr \<lparr>sol_t = [Num 0], sol_y = [[Num 10], [Num 10], [Num 10]],
             sol_status = - 1, sol_success = False\<rparr>"
  by (simp add: ode_solution_points_def arange_def failing_solver_def upt_rec transpose.simps)

text \<open>
  Claim C4, amended. The integrator does not inspect the status or the success flag of
  the solver's result: a result that reports a failed integration is handled exactly as
  one that reports success, so changing the two fields leaves the output of the
  integrator unchanged.
\<close>

theorem ode_solution_points_ignores_status:
  "ode_solution_points
     (\<lambda>f t_span y0 t_eval.
        map_sum id (\<lambda>r. r\<lparr>sol_status := status, sol_success := success\<rparr>)
          (solve_ivp f t_span y0 t_eval))
     function state0 time dt_arg
   = ode_solution_points solve_ivp function state0 time dt_arg"
  by (simp add: ode_solution_points_def Let_def split: sum.split)

subsection \<open>The example scenario\<close>

lemma arange_example:
  "arange (Num 0) (Num 15) (Num (1 / 100)) = Inr (map (\<lambda>k. Num (real k * (1 / 100))) [0..<1500])"
proof -
  have "nat \<lceil>(15 - 0) / (1 / 100 :: real)\<rceil> = 1500" by simp
  then show ?thesis by (simp add: arange_def)
qed

text \<open>
  Claim C6. In the example scenario (initial state \<open>(10, 10, 10)\<close>, \<open>sigma = 10\<close>,
  \<open>rho = 28\<close>, \<open>beta = 8/3\<close>, \<open>T = 15\<close>, \<open>dt = 0.01\<close>) the first point of the output is
  \<open>(10, 10, 10)\<close>, for every solver that returns one state per requested time and
  reports the initial state at the start time.
\<close>

theorem first_point_is_initial_state:
  assumes "arange (Num 0) (Num 15) (Num (1 / 100)) = Inr t_eval"
      and "solve_ivp (\<lambda>t s. lorenz_system t s (Some (Num 10)) (Some (Num 28)) (Some (Num (8 / 3))))
             (Num 0, Num 15) [Num 10, Num 10, Num 10] t_eval = Inr solution"
      and "samples_on_grid 3 t_eval solution"
      and "reports_initial_state (Num 0) [Num 10, Num 10, Num 10] solution"
  shows "\<exists>points.
           ode_solution_points solve_ivp
             (\<lambda>t s. lorenz_system t s (Some (Num 10)) (Some (Num 28)) (Some (Num (8 / 3))))
             [Num 10, Num 10, Num 10] (Num 15) (Some (Num (1 / 100))) = Inr points
         \<and> length points = 1500
         \<and> hd points = [Num 10, Num 10, Num 10]"
proof -
  let ?f = "\<lambda>t s. lorenz_system t s (Some (Num 10)) (Some (Num 28)) (Some (Num (8 / 3)))"
  have grid: "t_eval = map (\<lambda>k. Num (real k * (1 / 100))) [0..<1500]"
    using assms(1) by (simp add: arange_example)
  have n: "length t_eval = 1500" unfolding grid by simp
  have m_ne: "sol_y solution \<noteq> []"
    using assms(3) by (auto simp: samples_on_grid_def)
  have res: "ode_solution_points solve_ivp ?f [Num 10, Num 10, Num 10] (Num 15)
      (Some (Num (1 / 100))) = Inr (transpose (sol_y solution))"
    using assms(1,2) m_ne by (intro ode_solution_points_returned) simp_all
  have rect: "list_all (\<lambda>row. length row = 1500) (sol_y solution)"
    using assms(3) n by (simp add: samples_on_grid_def)
  have l: "length (transpose (sol_y solution)) = 1500"
    using m_ne rect by (rule length_transpose_rect)
  have t: "sol_t solution = t_eval"
    using assms(3) by (simp add: samples_on_grid_def)
  have t0: "sol_t solution ! 0 = Num 0" unfolding t grid by (simp add: nth_map_upt)
  have "0 < length (sol_t solution)" unfolding t n by simp
  with assms(4) t0 have "state_at solution 0 = [Num 10, Num 10, Num 10]"
    by (simp add: reports_initial_state_def list_all_iff)
  moreover have "transpose (sol_y solution) ! 0 = state_at solution 0"
    using nth_transpose_rect [OF m_ne rect, of 0] by (simp add: state_at_def)
  moreover have "hd (transpose (sol_y solution)) = transpose (sol_y solution) ! 0"
  proof (rule hd_conv_nth)
    show "transpose (sol_y solution) \<noteq> []" using l by auto
  qed
  ultimately show ?thesis using res l by simp
qed

lemma steady_solver_initial:
  "reports_initial_state t0 y0
     \<lparr>sol_t = t_eval, sol_y = map (\<lambda>v. map (\<lambda>t. v) t_eval) y0,
      sol_status = 0, sol_success = True\<rparr>"
  by (simp add: reports_initial_state_def state_at_def list_all_iff map_idI)

theorem first_point_is_initial_state_witness:
  "\<exists>points.
     ode_solution_points steady_solver
       (\<lambda>t s. lorenz_system t s (Some (Num 10)) (Some (Num 28)) (Some (Num (8 / 3))))
       [Num 10, Num 10, Num 10] (Num 15) (Some (Num (1 / 100))) = Inr points
   \<and> length points = 1500
   \<and> hd points = [Num 10, Num 10, Num 10]"
proof (rule first_point_is_initial_state)
  let ?grid = "map (\<lambda>k. Num (real k * (1 / 100))) [0..<1500]"
  let ?r = "\<lparr>sol_t = ?grid, sol_y = map (\<lambda>v. map (\<lambda>t. v) ?grid) [Num 10, Num 10, Num 10],
      sol_status = 0, sol_success = True\<rparr>"
  show "arange (Num 0) (Num 15) (Num (1 / 100)) = Inr ?grid"
    by (rule arange_example)
  show "steady_solver
          (\<lambda>t s. lorenz_system t s (Some (Num 10)) (Some (Num 28)) (Some (Num (8 / 3))))
          (Num 0, Num 15) [Num 10, Num 10, Num 10] ?grid = Inr ?r"
    by (simp add: steady_solver_def)
  show "samples_on_grid 3 ?grid ?r"
    by (simp add: samples_on_grid_def)
  show "reports_initial_state (Num 0) [Num 10, Num 10, Num 10] ?r"
    by (rule steady_solver_initial)
qed

section \<open>Properties of the ensemble\<close>

lemma perturbed_z:
  assumes "k < 5"
  shows "Num 10 + Num (real k) * epsilon = Num (10 + real k * (1 / 100000))"
proof -
  have k: "0 \<le> real k" "real k < 5" using assms by simp_all
  have big: "(20::real) < overflow_threshold" using threshold_large by simp
  have "\<bar>real k * (1 / 100000)\<bar> < overflow_threshold" using k big by simp
  then have 1: "Num (real k) * epsilon = Num (real k * (1 / 100000))"
    unfolding epsilon_def by (rule Num_times_Num)
  have "\<bar>10 + real k * (1 / 100000)\<bar> < overflow_threshold" using k big by simp
  then show ?thesis unfolding 1 by (simp add: overflow_below)
qed

lemma states_eq:
  "states = map (\<lambda>k. [Num 10, Num 10, Num (10 + real k * (1 / 100000))]) [0..<5]"
  unfolding states_def n_points_def by (rule map_cong) (simp_all add: perturbed_z)

lemma lorenz_defaults:
  "(\<lambda>t s. lorenz_system t s None None None)
     = (\<lambda>t s. lorenz_system t s (Some (Num 10)) (Some (Num 28)) (Some (Num (8 / 3))))"
  by (simp add: lorenz_system_def)

lemma ode_solution_points_default_dt:
  "ode_solution_points solve_ivp function state0 time None
     = ode_solution_points solve_ivp function state0 time (Some (Num (1 / 100)))"
  by (simp add: ode_solution_points_def)

lemma curves_loop_points:
  "curves_loop solve_ivp acc zs = Inr curves \<Longrightarrow>
     map (\<lambda>(points, color). (Inr points, color)) curves
       = map (\<lambda>(points, color). (Inr points, color)) acc
         @ map (\<lambda>(state, color).
                  (ode_solution_points solve_ivp (\<lambda>t s. lorenz_system t s None None None)
                     state evolution_time None, color)) zs"
proof (induction zs arbitrary: acc)
  case Nil
  then show ?case by simp
next
  case (Cons z zs)
  obtain state color where z: "z = (state, color)" by (cases z)
  from Cons.prems obtain points where
    p: "ode_solution_points solve_ivp (\<lambda>t s. lorenz_system t s None None None)
          state evolution_time None = Inr points"
    and rest: "curves_loop solve_ivp (acc @ [(points, color)]) zs = Inr curves"
    unfolding z by (auto split: sum.splits)
  from Cons.IH [OF rest] show ?case by (simp add: z p)
qed

lemma curves_loop_returns:
  assumes "\<forall>state \<in> fst ` set zs. \<exists>points.
     ode_solution_points solve_ivp (\<lambda>t s. lorenz_system t s None None None)
       state evolution_time None = Inr points"
  shows "\<exists>curves. curves_loop solve_ivp acc zs = Inr curves"
  using assms
proof (induction zs arbitrary: acc)
  case Nil
  then show ?case by simp
next
  case (Cons z zs)
  obtain state color where z: "z = (state, color)" by (cases z)
  from Cons.prems obtain points where
    p: "ode_solution_points solve_ivp (\<lambda>t s. lorenz_system t s None None None)
          state evolution_time None = Inr points"
    unfolding z by auto
  from Cons.prems have "\<forall>state \<in> fst ` set zs. \<exists>points.
     ode_solution_points solve_ivp (\<lambda>t s. lorenz_system t s None None None)
       state evolution_time None = Inr points" by simp
  from Cons.IH [OF this, of "acc @ [(points, color)]"] show ?case by (simp add: z p)
qed

text \<open>
  Claim C3. The scene builds exactly five initial states from the base state
  \<open>(10, 10, 10)\<close>: the \<open>k\<close>-th one, for \<open>k = 0, ..., 4\<close>, adds \<open>k * 1e-5\<close> to the
  \<open>z\<close>-coordinate and leaves \<open>x\<close> and \<open>y\<close> alone. When the scene's loop completes, it
  has computed one trajectory per state, each by the same integrator call with the same
  parameters \<open>sigma = 10\<close>, \<open>rho = 28\<close>, \<open>beta = 8/3\<close>, the same horizon \<open>15\<close> and the
  same sampling step \<open>0.01\<close>; only the initial state differs.
\<close>

theorem ensemble_construction:
  "states = map (\<lambda>k. [Num 10, Num 10, Num (10 + real k * (1 / 100000))]) [0..<5]
   \<and> length states = 5
   \<and> (length (color_gradient 5) = 5 \<and> construct_curves solve_ivp color_gradient = Inr curves
        \<longrightarrow> length curves = 5
          \<and> map (Inr \<circ> fst) curves
            = map (\<lambda>state.
                ode_solution_points solve_ivp
                  (\<lambda>t s. lorenz_system t s (Some (Num 10)) (Some (Num 28)) (Some (Num (8 / 3))))
                  state (Num 15) (Some (Num (1 / 100)))) states)"
proof (intro conjI impI)
  show "states = map (\<lambda>k. [Num 10, Num 10, Num (10 + real k * (1 / 100000))]) [0..<5]"
    by (rule states_eq)
  show len: "length states = 5" by (simp add: states_def n_points_def)
  assume h: "length (color_gradient 5) = 5
      \<and> construct_curves solve_ivp color_gradient = Inr curves"
  then have loop: "curves_loop solve_ivp [] (zip states (color_gradient 5)) = Inr curves"
    by (simp add: construct_curves_def len)
  let ?run = "\<lambda>state. ode_solution_points solve_ivp
      (\<lambda>t s. lorenz_system t s None None None) state evolution_time None"
  have eq: "map (\<lambda>(points, color). (Inr points, color)) curves
      = map (\<lambda>(state, color). (?run state, color)) (zip states (color_gradient 5))"
    using curves_loop_points [OF loop] by simp
  have "length (map (\<lambda>(points, color). (Inr points :: error + pyfloat list list, color)) curves)
      = length (zip states (color_gradient 5))"
    unfolding eq by simp
  then show "length curves = 5" using h len by simp
  have "map fst (map (\<lambda>(points, color). (Inr points, color)) curves)
      = map fst (map (\<lambda>(state, color). (?run state, color)) (zip states (color_gradient 5)))"
    unfolding eq ..
  then have "map (Inr \<circ> fst) curves = map ?run (map fst (zip states (color_gradient 5)))"
    by (simp add: comp_def case_prod_unfold)
  also have "map fst (zip states (color_gradient 5)) = states"
    using h len by (simp add: map_fst_zip)
  finally show "map (Inr \<circ> fst) curves
      = map (\<lambda>state.
          ode_solution_points solve_ivp
            (\<lambda>t s. lorenz_system t s (Some (Num 10)) (Some (Num 28)) (Some (Num (8 / 3))))
            state (Num 15) (Some (Num (1 / 100)))) states"
    by (simp add: lorenz_defaults ode_solution_points_default_dt evolution_time_def comp_def)
qed

lemma steady_solver_returns:
  "state0 \<noteq> [] \<Longrightarrow>
     \<exists>points. ode_solution_points steady_solver function state0 evolution_time None = Inr points"
  by (simp add: ode_solution_points_def arange_example evolution_time_def steady_solver_def)

lemma states_nonempty: "state \<in> set states \<Longrightarrow> state \<noteq> []"
  by (auto simp: states_def)

theorem ensemble_construction_witness:
  "\<exists>curves.
     construct_curves steady_solver (\<lambda>n. replicate n (0::nat)) = Inr curves
   \<and> length curves = 5
   \<and> map (Inr \<circ> fst) curves
       = map (\<lambda>state.
           ode_solution_points steady_solver
             (\<lambda>t s. lorenz_system t s (Some (Num 10)) (Some (Num 28)) (Some (Num (8 / 3))))
             state (Num 15) (Some (Num (1 / 100)))) states"
proof -
  obtain curves where
    c: "construct_curves steady_solver (\<lambda>n. replicate n (0::nat)) = Inr curves"
  proof -
    let ?zs = "zip states (replicate (length states) (0::nat))"
    have "\<forall>state \<in> fst ` set ?zs. \<exists>points.
        ode_solution_points steady_solver (\<lambda>t s. lorenz_system t s None None None)
          state evolution_time None = Inr points"
    proof
      fix state assume "state \<in> fst ` set ?zs"
      then have "state \<in> set states" by (auto dest: set_zip_leftD)
      then have "state \<noteq> []" by (rule states_nonempty)
      then show "\<exists>points.
          ode_solution_points steady_solver (\<lambda>t s. lorenz_system t s None None None)
            state evolution_time None = Inr points"
        by (rule steady_solver_returns)
    qed
    from curves_loop_returns [OF this, of "[]"] that show ?thesis
      by (auto simp: construct_curves_def)
  qed
  have "length (replicate 5 (0::nat)) = 5" by simp
  with c ensemble_construction [of "\<lambda>n. replicate n (0::nat)" steady_solver curves]
  show ?thesis by blast
qed

end
